theory Spec2Isabelle
  imports Main "HOL-Library.AList" "HOL-Library.Sublist"
begin

section \<open>JavaScript helpers shared by the worker and the CLI\<close>

text \<open>
  Strings are \<open>char list\<close>. A JavaScript exception is a value of \<open>js_error\<close>:
  \<open>Error msg\<close> is \<^verbatim>\<open>new Error(msg)\<close>, \<open>TypeError\<close> is the error of a property read on
  \<^verbatim>\<open>undefined\<close>, \<open>FsError code path\<close> is a rejected \<^verbatim>\<open>node:fs/promises\<close> call.
\<close>

datatype js_error = Error string | TypeError string | FsError string string

text \<open>\<^verbatim>\<open>str.split(sep)\<close> for a one-character separator: never empty, one more piece than
  there are separators.\<close>

fun split_on :: "char \<Rightarrow> string \<Rightarrow> string list" where
  "split_on sep [] = [[]]"
| "split_on sep (c # cs) =
     (if c = sep then [] # split_on sep cs
      else (case split_on sep cs of
              [] \<Rightarrow> [[c]]
            | w # ws \<Rightarrow> (c # w) # ws))"

text \<open>Array destructuring \<^verbatim>\<open>const [a, b] = xs\<close>: a missing position is \<^verbatim>\<open>undefined\<close>.\<close>

fun nth_opt :: "'a list \<Rightarrow> nat \<Rightarrow> 'a option" where
  "nth_opt [] n = None"
| "nth_opt (x # xs) 0 = Some x"
| "nth_opt (x # xs) (Suc n) = nth_opt xs n"

definition startsWith :: "string \<Rightarrow> string \<Rightarrow> bool" where
  "startsWith s p = prefix p s"

text \<open>\<^verbatim>\<open>hay.includes(needle)\<close>.\<close>

fun str_includes :: "string \<Rightarrow> string \<Rightarrow> bool" where
  "str_includes [] needle = (needle = [])"
| "str_includes (c # cs) needle = (prefix needle (c # cs) \<or> str_includes cs needle)"

section \<open>Worker: request validation\<close>

text \<open>The two character classes, \<^verbatim>\<open>/^[a-z0-9-]+$/\<close> and \<^verbatim>\<open>/^[a-zA-Z0-9-]+$/\<close>.\<close>

definition LowercaseAlphaNumericWithDashRegex :: "string \<Rightarrow> bool" where
  "LowercaseAlphaNumericWithDashRegex s =
     (s \<noteq> [] \<and> list_all (\<lambda>c. c \<in> set ''abcdefghijklmnopqrstuvwxyz0123456789-'') s)"

definition MixedCaseAlphaNumericWithDashRegex :: "string \<Rightarrow> bool" where
  "MixedCaseAlphaNumericWithDashRegex s =
     (s \<noteq> [] \<and>
      list_all (\<lambda>c. c \<in> set ''abcdefghijklmnopqrstuvwxyzABCDEFGHIJKLMNOPQRSTUVWXYZ0123456789-'') s)"

definition GithubUsername :: "string \<Rightarrow> bool" where
  "GithubUsername s =
     (s \<noteq> [] \<and> length s \<le> 39 \<and> MixedCaseAlphaNumericWithDashRegex s)"

text \<open>What the \<^verbatim>\<open>v.transform\<close> of \<^verbatim>\<open>PackageParams\<close> returns: every field may be
  \<^verbatim>\<open>undefined\<close>.\<close>

record raw_package =
  raw_org :: "string option"
  raw_packageName :: "string option"
  raw_version :: "string option"

text \<open>A coordinate that passed \<^verbatim>\<open>PackageInfo\<close>.\<close>

record package_info =
  org :: "string option"
  packageName :: string
  version :: string

definition info_field :: "string \<Rightarrow> bool" where
  "info_field s = (s \<noteq> [] \<and> length s \<le> 32 \<and> LowercaseAlphaNumericWithDashRegex s)"

definition PackageInfo :: "raw_package \<Rightarrow> package_info option" where
  "PackageInfo r =
     (case (raw_packageName r, raw_version r) of
        (Some n, Some v) \<Rightarrow>
          (if (case raw_org r of None \<Rightarrow> True | Some o' \<Rightarrow> info_field o')
              \<and> info_field n \<and> info_field v
           then Some \<lparr>org = raw_org r, packageName = n, version = v\<rparr>
           else None)
      | _ \<Rightarrow> None)"

text \<open>
  The transform of the \<^verbatim>\<open>package\<close> path segment. In the scoped branch \<^verbatim>\<open>name\<close> is
  \<^verbatim>\<open>undefined\<close> when the segment has no slash, and \<^verbatim>\<open>name.split("@")\<close> then throws.
\<close>

definition package_transform :: "string \<Rightarrow> js_error + raw_package" where
  "package_transform str =
     (if startsWith str ''@'' then
        (let parts = split_on CHR ''/'' str;
             org' = nth_opt parts 0;
             name = nth_opt parts 1
         in case name of
              None \<Rightarrow> Inl (TypeError ''Cannot read properties of undefined (reading split)'')
            | Some nm \<Rightarrow>
                (let ps = split_on CHR ''@'' nm
                 in Inr \<lparr>raw_org = map_option (drop 1) org',
                         raw_packageName = nth_opt ps 0,
                         raw_version = nth_opt ps 1\<rparr>))
      else
        (let ps = split_on CHR ''@'' str
         in Inr \<lparr>raw_org = None,
                 raw_packageName = nth_opt ps 0,
                 raw_version = nth_opt ps 1\<rparr>))"

text \<open>A response body, and what a route does with a request: it answers, or an exception
  leaves the handler chain uncaught.\<close>

datatype body =
    Invalid_format                    \<comment> \<open>\<^verbatim>\<open>{error: "Invalid package format", issues}\<close>\<close>
  | Validation_result                 \<comment> \<open>the validator's default answer, no hook given\<close>
  | Json_error string "string option" \<comment> \<open>\<^verbatim>\<open>{error, sha256?}\<close>\<close>
  | Json_message string               \<comment> \<open>\<^verbatim>\<open>{message}\<close>\<close>
  | Archive string string             \<comment> \<open>content type, bytes\<close>

datatype outcome = Respond nat body | Uncaught js_error

definition validatePackageParams :: "string \<Rightarrow> string \<Rightarrow> outcome + (string \<times> package_info)" where
  "validatePackageParams username package =
     (case package_transform package of
        Inl e \<Rightarrow> Inl (Uncaught e)
      | Inr raw \<Rightarrow>
          (case PackageInfo raw of
             None \<Rightarrow> Inl (Respond 400 Invalid_format)
           | Some info \<Rightarrow>
               (if GithubUsername username then Inr (username, info)
                else Inl (Respond 400 Invalid_format))))"

section \<open>Worker: storage keys\<close>

record StorageKeyArgs =
  key_username :: string
  key_org :: "string option"
  key_packageName :: string
  key_version :: string

text \<open>\<^verbatim>\<open>org ? ... : ...\<close> tests truthiness: \<^verbatim>\<open>undefined\<close> and the empty string are both
  falsy.\<close>

definition scope_prefix :: "string option \<Rightarrow> string \<Rightarrow> string \<Rightarrow> string" where
  "scope_prefix o' scoped unscoped =
     (case o' of
        None \<Rightarrow> unscoped
      | Some t \<Rightarrow> (if t \<noteq> [] then ''@'' @ t @ scoped else unscoped))"

definition storageKey :: "StorageKeyArgs \<Rightarrow> string" where
  "storageKey args =
     ''preview-pkg/'' @ key_username args @ ''/'' @
     scope_prefix (key_org args) ''__'' [] @ key_packageName args
     @ ''@'' @ key_version args"

definition key_of :: "string \<Rightarrow> package_info \<Rightarrow> string" where
  "key_of username info =
     storageKey \<lparr>key_username = username, key_org = org info,
                 key_packageName = packageName info, key_version = version info\<rparr>"

section \<open>Worker: the bucket and the two routes\<close>

text \<open>
  An object of the R2 bucket: its bytes, the SHA-256 checksum the bucket recorded for it
  (in hex; \<^verbatim>\<open>checksums.sha256\<close> is optional in R2's type, an object put without the
  option has none) and its custom metadata.
\<close>

record r2object =
  r2_body :: string
  r2_sha256 :: "string option"
  r2_customMetadata :: "(string \<times> string) list"

type_synonym bucket = "string \<rightharpoonup> r2object"

definition head :: "bucket \<Rightarrow> string \<Rightarrow> r2object option" where
  "head b k = b k"

definition get :: "bucket \<Rightarrow> string \<Rightarrow> r2object option" where
  "get b k = b k"

text \<open>The bucket's \<^verbatim>\<open>put\<close>: it replaces whatever the key held and records the checksum
  it verified.\<close>

definition put :: "bucket \<Rightarrow> string \<Rightarrow> string \<Rightarrow> (string \<times> string) list \<Rightarrow> string \<Rightarrow> bucket" where
  "put b k bytes meta sha =
     b(k \<mapsto> \<lparr>r2_body = bytes, r2_sha256 = Some sha, r2_customMetadata = meta\<rparr>)"

text \<open>\<^verbatim>\<open>app.get("/:username/:package{.+}")\<close>.\<close>

definition get_route :: "bucket \<Rightarrow> string \<Rightarrow> string \<Rightarrow> outcome" where
  "get_route b username package =
     (case validatePackageParams username package of
        Inl out \<Rightarrow> out
      | Inr (u, info) \<Rightarrow>
          (let packageKey = key_of u info
           in case head b packageKey of
                None \<Rightarrow> Respond 404 (Json_error ''Package not found'' None)
              | Some packageInfo \<Rightarrow>
                  (case get b packageKey of
                     None \<Rightarrow> Respond 404 (Json_error ''Package not found'' None)
                   | Some packageBody \<Rightarrow>
                       Respond 200 (Archive ''application/tar+gzip'' (r2_body packageBody)))))"

text \<open>A field of the multipart form: a string or a file (its bytes).\<close>

datatype form_value = Text string | File string

record form =
  tarball :: "form_value option"
  sha256 :: "form_value option"

text \<open>The form validator: \<^verbatim>\<open>tarball\<close> a file of at most \<^verbatim>\<open>1024 * 1024 * 10\<close> bytes,
  \<^verbatim>\<open>sha256\<close> a string of length 64.\<close>

definition validateForm :: "form \<Rightarrow> outcome + (string \<times> string)" where
  "validateForm f =
     (case (tarball f, sha256 f) of
        (Some (File bytes), Some (Text sha)) \<Rightarrow>
          (if length bytes \<le> 1024 * 1024 * 10 \<and> length sha = 64
           then Inr (bytes, sha)
           else Inl (Respond 400 Invalid_format))
      | _ \<Rightarrow> Inl (Respond 400 Invalid_format))"

definition validateHeader :: "string option \<Rightarrow> outcome + string" where
  "validateHeader authorization =
     (case authorization of
        None \<Rightarrow> Inl (Respond 400 Validation_result)
      | Some a \<Rightarrow> Inr a)"

text \<open>
  What the worker's collaborators answer: \<open>getAuthenticated\<close> is GitHub's
  \<^verbatim>\<open>users.getAuthenticated\<close> for a credential (the login, or it throws); \<open>put_rejects\<close>
  says whether the bucket's \<^verbatim>\<open>put\<close> rejects, and with which message. Each call is logged,
  so that a response can be checked to come before any of them.
\<close>

record services =
  getAuthenticated :: "string \<Rightarrow> js_error + string"
  put_rejects :: "string \<Rightarrow> string \<Rightarrow> string \<Rightarrow> string option"

datatype call = Auth_call string | Head_call string | Put_call string

record post_result =
  answer :: outcome
  bucket_after :: bucket
  calls :: "call list"

text \<open>\<^verbatim>\<open>existingPackage && existingPackage.checksums.sha256\<close>: the recorded checksum
  when there is an object and it has one.\<close>

definition existing_sha256 :: "r2object option \<Rightarrow> string option" where
  "existing_sha256 existingPackage =
     (case existingPackage of None \<Rightarrow> None | Some e \<Rightarrow> r2_sha256 e)"

text \<open>The last handler of the POST route, after the three validators.\<close>

definition post_handler ::
  "services \<Rightarrow> bucket \<Rightarrow> string \<Rightarrow> package_info \<Rightarrow> string \<Rightarrow> string \<Rightarrow> string \<Rightarrow> post_result" where
  "post_handler sv b username info bytes sha authorization =
     (case getAuthenticated sv authorization of
        Inl e \<Rightarrow> \<lparr>answer = Uncaught e, bucket_after = b, calls = [Auth_call authorization]\<rparr>
      | Inr login \<Rightarrow>
          (if login \<noteq> username then
             \<lparr>answer = Respond 401 (Json_error
                  (''Unauthorized: You are trying to publish a package for '' @ username @
                   '' but you are logged in as '' @ login) None),
              bucket_after = b, calls = [Auth_call authorization]\<rparr>
           else
             (let packageKey = key_of username info
              in case existing_sha256 (head b packageKey) of
                   Some recorded \<Rightarrow>
                     \<lparr>answer = Respond 409 (Json_error
                          (''Package '' @ scope_prefix (org info) ''/'' [] @ packageName info
                           @ ''@'' @ version info @ '' already exists'')
                          (Some recorded)),
                      bucket_after = b,
                      calls = [Auth_call authorization, Head_call packageKey]\<rparr>
                 | None \<Rightarrow>
                     (case put_rejects sv packageKey bytes sha of
                        Some msg \<Rightarrow>
                          \<lparr>answer =
                             (if str_includes msg ''SHA-256''
                              then Respond 400 (Json_error ''Invalid SHA-256 checksum'' None)
                              else Respond 500 (Json_error ''Failed to upload package to storage'' None)),
                           bucket_after = b,
                           calls = [Auth_call authorization, Head_call packageKey, Put_call packageKey]\<rparr>
                      | None \<Rightarrow>
                          \<lparr>answer = Respond 201 (Json_message ''Package created''),
                           bucket_after =
                             put b packageKey bytes
                               [(''org'', case org info of None \<Rightarrow> [] | Some o' \<Rightarrow> o'),
                                (''packageName'', packageName info),
                                (''version'', version info)] sha,
                           calls = [Auth_call authorization, Head_call packageKey, Put_call packageKey]\<rparr>))))"

text \<open>\<^verbatim>\<open>app.post("/:username/:package{.+}")\<close>: the validators in their order, then the
  handler.\<close>

record post_request =
  req_username :: string
  req_package :: string
  req_form :: form
  req_authorization :: "string option"

definition post_route :: "services \<Rightarrow> bucket \<Rightarrow> post_request \<Rightarrow> post_result" where
  "post_route sv b req =
     (case validatePackageParams (req_username req) (req_package req) of
        Inl out \<Rightarrow> \<lparr>answer = out, bucket_after = b, calls = []\<rparr>
      | Inr (u, info) \<Rightarrow>
          (case validateForm (req_form req) of
             Inl out \<Rightarrow> \<lparr>answer = out, bucket_after = b, calls = []\<rparr>
           | Inr (bytes, sha) \<Rightarrow>
               (case validateHeader (req_authorization req) of
                  Inl out \<Rightarrow> \<lparr>answer = out, bucket_after = b, calls = []\<rparr>
                | Inr a \<Rightarrow> post_handler sv b u info bytes sha a)))"

section \<open>CLI: files, commands and the network\<close>

text \<open>
  A file holds bytes; a JavaScript string is represented by its UTF-8 encoding, so that
  writing a string stores it as it is, and reading a file as \<^verbatim>\<open>"utf-8"\<close> decodes its
  bytes: every well-formed sequence stays, every ill-formed one becomes the replacement
  character U+FFFD (the bytes EF BF BD). The decoder keeps the number of bytes the current
  sequence still needs, the bytes of it seen so far and the bounds of the next byte; a
  byte outside the bounds ends the sequence with one replacement character and is decoded
  again as the start of a sequence.
\<close>

definition replacement :: string where
  "replacement = [CHR 0xEF, CHR 0xBF, CHR 0xBD]"

definition byte_in :: "char \<Rightarrow> nat \<Rightarrow> nat \<Rightarrow> bool" where
  "byte_in b lo hi = (lo \<le> of_char b \<and> of_char b \<le> hi)"

fun utf8_decode_from :: "nat \<Rightarrow> string \<Rightarrow> nat \<Rightarrow> nat \<Rightarrow> string \<Rightarrow> string" where
  "utf8_decode_from 0 seen lo hi [] = []"
| "utf8_decode_from (Suc n) seen lo hi [] = replacement"
| "utf8_decode_from 0 seen lo hi (b # bs) =
     (if byte_in b 0x00 0x7F then b # utf8_decode_from 0 [] 0x80 0xBF bs
      else if byte_in b 0xC2 0xDF then utf8_decode_from 1 [b] 0x80 0xBF bs
      else if byte_in b 0xE0 0xEF then
        utf8_decode_from 2 [b] (if b = CHR 0xE0 then 0xA0 else 0x80)
          (if b = CHR 0xED then 0x9F else 0xBF) bs
      else if byte_in b 0xF0 0xF4 then
        utf8_decode_from 3 [b] (if b = CHR 0xF0 then 0x90 else 0x80)
          (if b = CHR 0xF4 then 0x8F else 0xBF) bs
      else replacement @ utf8_decode_from 0 [] 0x80 0xBF bs)"
| "utf8_decode_from (Suc n) seen lo hi (b # bs) =
     (if \<not> byte_in b lo hi then replacement @ utf8_decode_from 0 [] 0x80 0xBF (b # bs)
      else if n = 0 then seen @ [b] @ utf8_decode_from 0 [] 0x80 0xBF bs
      else utf8_decode_from n (seen @ [b]) 0x80 0xBF bs)"

definition utf8_decode :: "string \<Rightarrow> string" where
  "utf8_decode bytes = utf8_decode_from 0 [] 0x80 0xBF bytes"

text \<open>Bytes that decoding leaves as they are: well-formed UTF-8.\<close>

definition well_formed_utf8 :: "string \<Rightarrow> bool" where
  "well_formed_utf8 bytes = (utf8_decode bytes = bytes)"

text \<open>
  The file tree as far as \<^verbatim>\<open>node:fs/promises\<close> shows it to the CLI: a path holds a regular
  file with its bytes, a directory, or nothing. \<open>denied\<close> gives, for a path that the
  operating system refuses to change (a read-only file, a missing parent directory, a full
  disk), the code of the error. The \<open>trace\<close> records, in order, every write, every
  command run and every request sent.
\<close>

datatype node = Regular string | Directory

type_synonym fs = "string \<rightharpoonup> node"

datatype event =
    Write string
  | Unlink string
  | Exec string "string list" "string option"
  | Fetch string

record world =
  files :: fs
  denied :: "string \<Rightarrow> string option"
  trace :: "event list"

text \<open>\<^verbatim>\<open>readFile(path)\<close> gives the bytes, \<^verbatim>\<open>readFile(path, "utf-8")\<close> the decoded
  string.\<close>

datatype encoding = Utf8

definition readFile :: "world \<Rightarrow> string \<Rightarrow> encoding option \<Rightarrow> js_error + string" where
  "readFile w path enc =
     (case files w path of
        None \<Rightarrow> Inl (FsError ''ENOENT'' path)
      | Some Directory \<Rightarrow> Inl (FsError ''EISDIR'' path)
      | Some (Regular bytes) \<Rightarrow>
          (case enc of
             None \<Rightarrow> Inr bytes
           | Some Utf8 \<Rightarrow> Inr (utf8_decode bytes)))"

definition writeFile :: "world \<Rightarrow> string \<Rightarrow> string \<Rightarrow> (js_error + unit) \<times> world" where
  "writeFile w path contents =
     (case files w path of
        Some Directory \<Rightarrow> (Inl (FsError ''EISDIR'' path), w)
      | _ \<Rightarrow>
          (case denied w path of
             Some code \<Rightarrow> (Inl (FsError code path), w)
           | None \<Rightarrow>
               (Inr (), w\<lparr>files := (files w)(path \<mapsto> Regular contents),
                          trace := trace w @ [Write path]\<rparr>)))"

text \<open>\<^verbatim>\<open>stat\<close> answers for whatever is at the path; only the size is read from it.\<close>

definition stat :: "world \<Rightarrow> string \<Rightarrow> js_error + nat" where
  "stat w path =
     (case files w path of
        None \<Rightarrow> Inl (FsError ''ENOENT'' path)
      | Some Directory \<Rightarrow> Inr 4096
      | Some (Regular contents) \<Rightarrow> Inr (length contents))"

definition unlink :: "world \<Rightarrow> string \<Rightarrow> (js_error + unit) \<times> world" where
  "unlink w path =
     (case files w path of
        None \<Rightarrow> (Inl (FsError ''ENOENT'' path), w)
      | Some Directory \<Rightarrow> (Inl (FsError ''EISDIR'' path), w)
      | Some (Regular contents) \<Rightarrow>
          (case denied w path of
             Some code \<Rightarrow> (Inl (FsError code path), w)
           | None \<Rightarrow>
               (Inr (), w\<lparr>files := (files w)(path := None),
                          trace := trace w @ [Unlink path]\<rparr>)))"

text \<open>\<^verbatim>\<open>join(dir, file)\<close> for a directory path as \<^verbatim>\<open>glob\<close> and \<^verbatim>\<open>process.cwd()\<close> give it
  (absolute, no trailing separator).\<close>

definition join :: "string \<Rightarrow> string \<Rightarrow> string" where
  "join dir entry = dir @ ''/'' @ entry"

text \<open>What a finished command reports (\<^verbatim>\<open>tinyexec\<close>): \<^verbatim>\<open>exitCode\<close> is \<^verbatim>\<open>undefined\<close>
  when the process did not exit by itself. With \<^verbatim>\<open>stdio: "inherit"\<close> the command writes
  to the terminal of the CLI and nothing of its output is captured: \<^verbatim>\<open>stdout\<close> and
  \<^verbatim>\<open>stderr\<close> of the result are empty.\<close>

record exec_result =
  exitCode :: "int option"
  stdout :: string
  stderr :: string

datatype stdio = Pipe | Inherit

definition captured :: "stdio \<Rightarrow> exec_result \<Rightarrow> exec_result" where
  "captured mode res =
     (case mode of
        Pipe \<Rightarrow> res
      | Inherit \<Rightarrow> res\<lparr>stdout := [], stderr := []\<rparr>)"

text \<open>\<^verbatim>\<open>str.trim()\<close>, on the ASCII white space.\<close>

definition js_space :: "char \<Rightarrow> bool" where
  "js_space c = (c \<in> set [CHR 0x20, CHR 0x09, CHR 0x0A, CHR 0x0B, CHR 0x0C, CHR 0x0D])"

definition trim :: "string \<Rightarrow> string" where
  "trim s = rev (dropWhile js_space (rev (dropWhile js_space s)))"

text \<open>\<^verbatim>\<open>str.replace(c, by)\<close> with a string pattern: the first occurrence only.\<close>

fun replace_first :: "char \<Rightarrow> string \<Rightarrow> string \<Rightarrow> string" where
  "replace_first c by' [] = []"
| "replace_first c by' (d # ds) = (if d = c then by' @ ds else d # replace_first c by' ds)"

section \<open>CLI: manifests and the dependency map\<close>

text \<open>
  \<^verbatim>\<open>PackageJson\<close>. A \<^verbatim>\<open>Record<string, string>\<close> is the list of its own properties in
  insertion order; a \<^verbatim>\<open>Map<string, string>\<close> is the list of its entries in insertion
  order, its keys distinct.
\<close>

type_synonym js_record = "(string \<times> string) list"

record PackageJson =
  pj_name :: "string option"
  pj_version :: "string option"
  pj_private :: "bool option"
  dependencies :: "js_record option"
  devDependencies :: "js_record option"
  optionalDependencies :: "js_record option"
  peerDependencies :: "js_record option"

text \<open>
  \<^verbatim>\<open>key in obj\<close> also finds what a plain object inherits from \<^verbatim>\<open>Object.prototype\<close>.
  \<^verbatim>\<open>obj[key] = value\<close> replaces an own property in place; on an inherited method it
  creates an own property; \<^verbatim>\<open>__proto__\<close>, when inherited, is an accessor whose setter
  ignores a string.
\<close>

definition inherited_methods :: "string list" where
  "inherited_methods =
     [''constructor'', ''hasOwnProperty'', ''isPrototypeOf'', ''propertyIsEnumerable'',
      ''toLocaleString'', ''toString'', ''valueOf'', ''__defineGetter__'',
      ''__defineSetter__'', ''__lookupGetter__'', ''__lookupSetter__'']"

definition js_in :: "string \<Rightarrow> js_record \<Rightarrow> bool" where
  "js_in key obj =
     (key \<in> set (map fst obj) \<or> key \<in> set inherited_methods \<or> key = ''__proto__'')"

definition assign :: "string \<Rightarrow> string \<Rightarrow> js_record \<Rightarrow> js_record" where
  "assign key val obj =
     (if key \<in> set (map fst obj) \<or> key \<in> set inherited_methods
      then AList.update key val obj
      else obj)"

text \<open>The body of the loop of \<^verbatim>\<open>hijackDeps\<close>, for one entry of the map.\<close>

definition hijack_step :: "string \<times> string \<Rightarrow> js_record \<Rightarrow> js_record" where
  "hijack_step entry oldDeps =
     (case entry of (newDep, url) \<Rightarrow>
        (if js_in newDep oldDeps then assign newDep url oldDeps else oldDeps))"

definition hijackDeps :: "js_record \<Rightarrow> js_record option \<Rightarrow> js_record option" where
  "hijackDeps newDeps oldDeps =
     (case oldDeps of
        None \<Rightarrow> None
      | Some old \<Rightarrow> Some (fold hijack_step newDeps old))"

text \<open>
  The rewrite of one dependency class in the specification's words: every dependency whose
  name is a key of the map gets the mapped URL as its version string; in addition, an entry
  whose name is no key of the map keeps its version string, and a class that the manifest
  does not have stays absent.
\<close>

definition rewritten_per_spec :: "js_record \<Rightarrow> js_record option \<Rightarrow> js_record option \<Rightarrow> bool" where
  "rewritten_per_spec deps before after =
     (case before of
        None \<Rightarrow> after = None
      | Some old \<Rightarrow>
          (case after of
             None \<Rightarrow> False
           | Some new \<Rightarrow>
               (\<forall>k url. k \<in> fst ` set old \<and> map_of deps k = Some url \<longrightarrow> map_of new k = Some url)
               \<and> (\<forall>k. k \<notin> fst ` set deps \<longrightarrow> map_of new k = map_of old k)))"

text \<open>The manifest object after the three \<^verbatim>\<open>hijackDeps\<close> calls of \<^verbatim>\<open>writeDeps\<close>.\<close>

definition hijacked :: "js_record \<Rightarrow> PackageJson \<Rightarrow> PackageJson" where
  "hijacked deps pJson =
     pJson\<lparr>dependencies := hijackDeps deps (dependencies pJson),
            devDependencies := hijackDeps deps (devDependencies pJson),
            optionalDependencies := hijackDeps deps (optionalDependencies pJson)\<rparr>"

text \<open>The closure \<^verbatim>\<open>() => writeFile(pJsonPath, originalContents)\<close>, as the two values it
  captured.\<close>

datatype restore = Restore string string

definition run_restore :: "restore \<Rightarrow> world \<Rightarrow> (js_error + unit) \<times> world" where
  "run_restore r w = (case r of Restore pJsonPath originalContents \<Rightarrow>
                        writeFile w pJsonPath originalContents)"

text \<open>
  What the CLI is given from outside: the command runner (it throws when the command
  cannot be started, and otherwise reports how it ended), \<^verbatim>\<open>glob\<close>, the working
  directory, \<^verbatim>\<open>JSON.parse\<close> (\<open>None\<close> when it throws) and \<^verbatim>\<open>JSON.stringify\<close> on manifests,
  the SHA-256 digest in hex, the stored credential's token, the login GitHub answers for it,
  the upload endpoint's base URL and \<^verbatim>\<open>fetch\<close>.
\<close>

record reply_body =
  reply_inspect :: string
  reply_sha256 :: "string option"

record http_reply =
  status :: nat
  statusText :: string
  parsed :: "string + reply_body"

record env =
  env_x :: "string \<Rightarrow> string list \<Rightarrow> string option \<Rightarrow> fs \<Rightarrow> (js_error + exec_result) \<times> fs"
  env_glob :: "string \<Rightarrow> string list"
  env_cwd :: string
  JSON_parse :: "string \<Rightarrow> PackageJson option"
  JSON_stringify :: "PackageJson \<Rightarrow> string"
  sha256_hex :: "string \<Rightarrow> string"
  getCredentials :: "string option"
  getUsername :: "js_error + string"
  API_URL_BASE :: string
  env_fetch :: "string \<Rightarrow> string \<Rightarrow> string \<Rightarrow> string \<Rightarrow> js_error + http_reply"

definition run_x ::
  "env \<Rightarrow> world \<Rightarrow> string \<Rightarrow> string list \<Rightarrow> string option \<Rightarrow> stdio
     \<Rightarrow> (js_error + exec_result) \<times> world" where
  "run_x e w cmd args dir mode =
     (case env_x e cmd args dir (files w) of
        (res, fs') \<Rightarrow>
          (case res of Inl err \<Rightarrow> Inl err | Inr r \<Rightarrow> Inr (captured mode r),
           w\<lparr>files := fs', trace := trace w @ [Exec cmd args dir]\<rparr>))"

definition writeDeps ::
  "env \<Rightarrow> world \<Rightarrow> string \<Rightarrow> string \<Rightarrow> PackageJson \<Rightarrow> js_record
     \<Rightarrow> (js_error + restore) \<times> world" where
  "writeDeps e w pJsonPath originalContents pJson deps =
     (case writeFile w pJsonPath (JSON_stringify e (hijacked deps pJson)) of
        (Inl err, w') \<Rightarrow> (Inl err, w')
      | (Inr u, w') \<Rightarrow> (Inr (Restore pJsonPath originalContents), w'))"

definition readPackageJson :: "env \<Rightarrow> world \<Rightarrow> string \<Rightarrow> PackageJson option" where
  "readPackageJson e w path =
     (case readFile w path (Some Utf8) of
        Inl err \<Rightarrow> None
      | Inr contents \<Rightarrow> JSON_parse e contents)"

section \<open>CLI: the passes of \<^verbatim>\<open>publish\<close>\<close>

text \<open>\<^verbatim>\<open>!publishingVersion\<close>, \<^verbatim>\<open>!pJson.name\<close>: \<^verbatim>\<open>undefined\<close> and the empty string are falsy.
  \<open>defined s\<close> is the string when it is truthy.\<close>

definition defined :: "string option \<Rightarrow> string option" where
  "defined s = (case s of None \<Rightarrow> None | Some t \<Rightarrow> (if t = [] then None else Some t))"

text \<open>The version to publish under; \<open>Inr None\<close> is the early return after a failed
  \<^verbatim>\<open>git rev-parse HEAD\<close>, \<open>Inl\<close> an exception of the command runner.\<close>

definition resolve_version ::
  "env \<Rightarrow> world \<Rightarrow> string option \<Rightarrow> (js_error + string option) \<times> world" where
  "resolve_version e w input_version =
     (case defined input_version of
        Some v \<Rightarrow> (Inr (Some v), w)
      | None \<Rightarrow>
          (case run_x e w ''git'' [''rev-parse'', ''HEAD''] None Pipe of
             (Inl err, w') \<Rightarrow> (Inl err, w')
           | (Inr gitVersion, w') \<Rightarrow>
               (if exitCode gitVersion \<noteq> Some 0 then (Inr None, w')
                else (Inr (Some (take 7 (trim (stdout gitVersion)))), w'))))"

text \<open>An entry of \<^verbatim>\<open>packageInfos\<close>; \<open>pkg_name\<close> and \<open>pkg_version\<close> are \<^verbatim>\<open>pJson.name!\<close> and
  \<^verbatim>\<open>pJson.version!\<close>, which pass 1 checked.\<close>

record pkg =
  pkg_path :: string
  pkg_name :: string
  pkg_version :: string
  pkg_pJson :: PackageJson

text \<open>The checks of pass 1, in their order: a name, not private, a version.\<close>

definition publishable :: "PackageJson \<Rightarrow> (string \<times> string) option" where
  "publishable pJson =
     (case defined (pj_name pJson) of
        None \<Rightarrow> None
      | Some n \<Rightarrow>
          (if pj_private pJson = Some True then None
           else (case defined (pj_version pJson) of
                   None \<Rightarrow> None
                 | Some v \<Rightarrow> Some (n, v))))"

definition packageUrl :: "env \<Rightarrow> string \<Rightarrow> string \<Rightarrow> string \<Rightarrow> string" where
  "packageUrl e username name publishingVersion =
     API_URL_BASE e @ ''/'' @ username @ ''/'' @ name @ ''@'' @ publishingVersion"

text \<open>\<^verbatim>\<open>deps.set(pJson.name, packageUrl)\<close> for one discovered package.\<close>

definition set_url :: "env \<Rightarrow> string \<Rightarrow> string \<Rightarrow> pkg \<Rightarrow> js_record \<Rightarrow> js_record" where
  "set_url e username publishingVersion i deps =
     AList.update (pkg_name i) (packageUrl e username (pkg_name i) publishingVersion) deps"

fun pass1 ::
  "env \<Rightarrow> world \<Rightarrow> string \<Rightarrow> string \<Rightarrow> string list \<Rightarrow> js_record \<times> pkg list
     \<Rightarrow> js_record \<times> pkg list" where
  "pass1 e w username publishingVersion [] acc = acc"
| "pass1 e w username publishingVersion (p # paths) (deps, packageInfos) =
     (case readPackageJson e w (join p ''package.json'') of
        None \<Rightarrow> pass1 e w username publishingVersion paths (deps, packageInfos)
      | Some pJson \<Rightarrow>
          (case publishable pJson of
             None \<Rightarrow> pass1 e w username publishingVersion paths (deps, packageInfos)
           | Some (n, v) \<Rightarrow>
               (let i = \<lparr>pkg_path = p, pkg_name = n, pkg_version = v, pkg_pJson = pJson\<rparr>
                in pass1 e w username publishingVersion paths
                     (set_url e username publishingVersion i deps, packageInfos @ [i]))))"

fun pass2 ::
  "env \<Rightarrow> js_record \<Rightarrow> pkg list \<Rightarrow> (string \<times> restore) list \<Rightarrow> world
     \<Rightarrow> (js_error + (string \<times> restore) list) \<times> world" where
  "pass2 e deps [] restoreMap w = (Inr restoreMap, w)"
| "pass2 e deps (i # rest) restoreMap w =
     (let pJsonPath = join (pkg_path i) ''package.json''
      in case readFile w pJsonPath (Some Utf8) of
           Inl err \<Rightarrow> (Inl err, w)
         | Inr originalContents \<Rightarrow>
             (case writeDeps e w pJsonPath originalContents (pkg_pJson i) deps of
                (Inl err, w') \<Rightarrow> (Inl err, w')
              | (Inr r, w') \<Rightarrow> pass2 e deps rest (AList.update (pkg_path i) r restoreMap) w'))"

datatype PackageManager = pnpm | bun | yarn | npm

fun manager_name :: "PackageManager \<Rightarrow> string" where
  "manager_name pnpm = ''pnpm''"
| "manager_name bun = ''bun''"
| "manager_name yarn = ''yarn''"
| "manager_name npm = ''npm''"

record PackOptions =
  packageManager :: PackageManager
  cwd :: string
  packageIdentifier :: string
  keepFile :: "bool option"

record pack_result =
  pr_filename :: string
  pr_file :: string
  pr_sha256 :: string
  pr_size :: nat
  pr_output :: string

definition pack :: "env \<Rightarrow> world \<Rightarrow> PackOptions \<Rightarrow> (js_error + pack_result) \<times> world" where
  "pack e w options =
     (let pm = packageManager options;
          keep = (case keepFile options of None \<Rightarrow> False | Some k \<Rightarrow> k);
          packArgs0 = [''pack''];
          packArgs1 = (if pm = bun then ''pm'' # packArgs0 else packArgs0);
          packArgs = (if pm = yarn
                      then packArgs1 @ [''--filename'', packageIdentifier options @ ''.tgz'']
                      else packArgs1)
      in case run_x e w (manager_name pm) packArgs (Some (cwd options)) Inherit of
           (Inl err, w1) \<Rightarrow> (Inl err, w1)
         | (Inr res, w1) \<Rightarrow>
             (let out = trim (stdout res @ stderr res)
              in if exitCode res \<noteq> Some 0 then
                   (Inl (Error (''Failed to pack '' @ cwd options @ '' with '' @ manager_name pm @
                                (if out \<noteq> [] then '':'' @ [CHR 0x0A] @ out else []))), w1)
                 else
                   (let fname = join (cwd options) (packageIdentifier options @ ''.tgz'');
                        contents = (case readFile w1 fname None of
                                      Inl err \<Rightarrow> None
                                    | Inr c \<Rightarrow> Some c)
                    in case stat w1 fname of
                         Inl err \<Rightarrow> (Inl err, w1)
                       | Inr sz \<Rightarrow>
                           (case contents of
                              None \<Rightarrow>
                                (Inl (Error ''Pack command returned success but no output file was found, this is likely a bug''), w1)
                            | Some bytes \<Rightarrow>
                                (let packed = \<lparr>pr_filename = fname, pr_file = bytes,
                                               pr_sha256 = sha256_hex e bytes,
                                               pr_size = sz, pr_output = out\<rparr>
                                 in if \<not> keep then
                                      (case unlink w1 fname of
                                         (Inl err, w2) \<Rightarrow> (Inl err, w2)
                                       | (Inr u, w2) \<Rightarrow> (Inr packed, w2))
                                    else (Inr packed, w1))))))"

definition identifier_of :: "string \<Rightarrow> string \<Rightarrow> string" where
  "identifier_of name ver =
     replace_first CHR ''/'' ''-'' (replace_first CHR ''@'' [] name) @ ''-'' @ ver"

fun pass3 ::
  "env \<Rightarrow> PackageManager \<Rightarrow> pkg list \<Rightarrow> (pkg \<times> pack_result) list \<Rightarrow> world
     \<Rightarrow> (js_error + (pkg \<times> pack_result) list) \<times> world" where
  "pass3 e packer [] packedPackages w = (Inr packedPackages, w)"
| "pass3 e packer (i # rest) packedPackages w =
     (case pack e w \<lparr>packageManager = packer, cwd = pkg_path i,
                      packageIdentifier = identifier_of (pkg_name i) (pkg_version i),
                      keepFile = None\<rparr> of
        (Inl err, w') \<Rightarrow> (Inl err, w')
      | (Inr packResult, w') \<Rightarrow> pass3 e packer rest (packedPackages @ [(i, packResult)]) w')"

fun pass4 :: "restore list \<Rightarrow> world \<Rightarrow> (js_error + unit) \<times> world" where
  "pass4 [] w = (Inr (), w)"
| "pass4 (r # rest) w =
     (case run_restore r w of
        (Inl err, w') \<Rightarrow> (Inl err, w')
      | (Inr u, w') \<Rightarrow> pass4 rest w')"

datatype upload_status = Success | Exists | Failed

record upload_result =
  up_name :: string
  up_packageUrl :: "string option"
  up_status :: upload_status
  up_errorMessage :: "string option"

fun message_of :: "js_error \<Rightarrow> string" where
  "message_of (Error m) = m"
| "message_of (TypeError m) = m"
| "message_of (FsError code path) = code @ '': '' @ path"

text \<open>One task of pass 5. Everything after \<^verbatim>\<open>deps.get\<close> is inside \<^verbatim>\<open>try\<close>: no error leaves
  the task.\<close>

definition upload_task ::
  "env \<Rightarrow> string \<Rightarrow> js_record \<Rightarrow> pkg \<times> pack_result \<Rightarrow> world \<Rightarrow> upload_result \<times> world" where
  "upload_task e token deps packed w =
     (case packed of (i, packResult) \<Rightarrow>
        (case map_of deps (pkg_name i) of
           None \<Rightarrow>
             (\<lparr>up_name = pkg_name i, up_packageUrl = None, up_status = Failed,
               up_errorMessage = Some ''Failed to parse URL from undefined''\<rparr>, w)
         | Some url \<Rightarrow>
             (let w' = w\<lparr>trace := trace w @ [Fetch url]\<rparr>;
                  result = (\<lambda>st msg. \<lparr>up_name = pkg_name i, up_packageUrl = Some url,
                                       up_status = st, up_errorMessage = msg\<rparr>)
              in case env_fetch e url (pr_file packResult) (pr_sha256 packResult)
                        (''Bearer '' @ token) of
                   Inl err \<Rightarrow> (result Failed (Some (message_of err)), w')
                 | Inr uploadRes \<Rightarrow>
                     (case parsed uploadRes of
                        Inl issues \<Rightarrow>
                          (result Failed (Some (''Failed to parse response: '' @ issues)), w')
                      | Inr response \<Rightarrow>
                          (if status uploadRes = 409 \<and> reply_sha256 response \<noteq> None then
                             (if reply_sha256 response = Some (pr_sha256 packResult)
                              then (result Exists None, w')
                              else (result Failed
                                      (Some (''Same version exists with different SHA-256 checksum''
                                         @ [CHR 0x0A] @ ''Expected: ''
                                         @ (case reply_sha256 response of None \<Rightarrow> [] | Some s \<Rightarrow> s)
                                         @ [CHR 0x0A] @ ''Actual: '' @ pr_sha256 packResult)), w'))
                           else if \<not> (200 \<le> status uploadRes \<and> status uploadRes \<le> 299) then
                             (result Failed (Some (reply_inspect response)), w')
                           else (result Success None, w'))))))"

fun pass5 ::
  "env \<Rightarrow> string \<Rightarrow> js_record \<Rightarrow> (pkg \<times> pack_result) list \<Rightarrow> upload_result list \<Rightarrow> world
     \<Rightarrow> upload_result list \<times> world" where
  "pass5 e token deps [] uploadResults w = (uploadResults, w)"
| "pass5 e token deps (p # rest) uploadResults w =
     (case upload_task e token deps p w of
        (r, w') \<Rightarrow> pass5 e token deps rest (uploadResults @ [r]) w')"

text \<open>How a run of \<^verbatim>\<open>publish\<close> ends: one of its early returns, an exception that left the
  procedure, or the upload results.\<close>

datatype publish_end =
    Authentication_required
  | Version_detection_failed
  | No_packages_to_publish
  | Threw js_error
  | Finished "upload_result list"

definition expand_paths :: "env \<Rightarrow> string list \<Rightarrow> string list" where
  "expand_paths e patterns =
     (if length patterns > 0
      then filter (\<lambda>p. p \<noteq> []) (concat (map (env_glob e) patterns))
      else [env_cwd e])"

definition publish ::
  "env \<Rightarrow> string list \<Rightarrow> PackageManager \<Rightarrow> string option \<Rightarrow> world \<Rightarrow> publish_end \<times> world" where
  "publish e patterns packer input_version w =
     (case getCredentials e of
        None \<Rightarrow> (Authentication_required, w)
      | Some token \<Rightarrow>
          (let paths = expand_paths e patterns
           in case resolve_version e w input_version of
                (Inl err, w1) \<Rightarrow> (Threw err, w1)
              | (Inr None, w1) \<Rightarrow> (Version_detection_failed, w1)
              | (Inr (Some publishingVersion), w1) \<Rightarrow>
                  (case getUsername e of
                     Inl err \<Rightarrow> (Threw err, w1)
                   | Inr username \<Rightarrow>
                       (case pass1 e w1 username publishingVersion paths ([], []) of
                          (deps, packageInfos) \<Rightarrow>
                            (if length packageInfos = 0 then (No_packages_to_publish, w1)
                             else
                               (case pass2 e deps packageInfos [] w1 of
                                  (Inl err, w2) \<Rightarrow> (Threw err, w2)
                                | (Inr restoreMap, w2) \<Rightarrow>
                                    (case pass3 e packer packageInfos [] w2 of
                                       (Inl err, w3) \<Rightarrow> (Threw err, w3)
                                     | (Inr packedPackages, w3) \<Rightarrow>
                                         (case pass4 (map snd restoreMap) w3 of
                                            (Inl err, w4) \<Rightarrow> (Threw err, w4)
                                          | (Inr u, w4) \<Rightarrow>
                                              (case pass5 e token deps packedPackages [] w4 of
                                                 (uploadResults, w5) \<Rightarrow>
                                                   (Finished uploadResults, w5))))))))))"


section \<open>Concrete scenarios\<close>

text \<open>Collaborators that accept: GitHub answers the given login for any credential, the
  bucket takes every \<^verbatim>\<open>put\<close>.\<close>

definition accepting_services :: "string \<Rightarrow> services" where
  "accepting_services login =
     \<lparr>getAuthenticated = (\<lambda>credential. Inr login), put_rejects = (\<lambda>k bytes sha. None)\<rparr>"

text \<open>An object that reached the bucket without the \<^verbatim>\<open>sha256\<close> option, and one that was
  put with it.\<close>

definition unchecked_object :: r2object where
  "unchecked_object = \<lparr>r2_body = ''old'', r2_sha256 = None, r2_customMetadata = []\<rparr>"

definition checked_object :: r2object where
  "checked_object = \<lparr>r2_body = ''old'', r2_sha256 = Some ''aa'', r2_customMetadata = []\<rparr>"

definition demo_info :: package_info where
  "demo_info = \<lparr>org = None, packageName = ''pkg'', version = ''1''\<rparr>"

text \<open>
  A workspace of three packages \<open>a\<close>, \<open>b\<close>, \<open>c\<close> under \<open>/w\<close>, each depending on \<open>a\<close>.
  The manifests' texts stand for themselves: the parser maps each to its object, the
  serialiser writes a text that differs from what the user wrote.
\<close>

definition demo_manifest :: "string \<Rightarrow> PackageJson" where
  "demo_manifest n =
     \<lparr>pj_name = Some n, pj_version = Some ''1.0.0'', pj_private = None,
      dependencies = Some [(''a'', ''workspace:*'')], devDependencies = None,
      optionalDependencies = None, peerDependencies = Some [(''a'', ''workspace:*'')]\<rparr>"

definition demo_parse :: "string \<Rightarrow> PackageJson option" where
  "demo_parse s =
     (if s = ''manifest a'' then Some (demo_manifest ''a'')
      else if s = ''manifest b'' then Some (demo_manifest ''b'')
      else if s = ''manifest c'' then Some (demo_manifest ''c'')
      else None)"

definition demo_stringify :: "PackageJson \<Rightarrow> string" where
  "demo_stringify pJson =
     ''rewritten manifest '' @ (case pj_name pJson of None \<Rightarrow> [] | Some n \<Rightarrow> n)"

definition demo_world :: world where
  "demo_world =
     \<lparr>files = [''/w/a/package.json'' \<mapsto> Regular ''manifest a'',
               ''/w/b/package.json'' \<mapsto> Regular ''manifest b'',
               ''/w/c/package.json'' \<mapsto> Regular ''manifest c''],
      denied = (\<lambda>path. None),
      trace = []\<rparr>"

text \<open>A manifest saved in Latin-1: the byte E9 (an e with acute accent) is not well-formed
  UTF-8. And a manifest with the same letter in UTF-8, the bytes C3 A9.\<close>

definition latin1_manifest :: string where
  "latin1_manifest = ''manifest caf'' @ [CHR 0xE9]"


definition latin1_world :: world where
  "latin1_world =
     \<lparr>files = [''/w/b/package.json'' \<mapsto> Regular latin1_manifest],
      denied = (\<lambda>path. None),
      trace = []\<rparr>"

text \<open>
  Command runners. \<open>runner git_code failing\<close>: \<^verbatim>\<open>git\<close> exits with \<open>git_code\<close> and prints
  a revision; the packer prints \<open>boom\<close> and exits with 1 in the directory \<open>failing\<close>, and
  elsewhere writes the tarball of the package and exits with 0. \<open>runner_without_output\<close>: the packer exits with
  0 and writes nothing.
\<close>

definition runner ::
  "int \<Rightarrow> string option \<Rightarrow> string \<Rightarrow> string list \<Rightarrow> string option \<Rightarrow> fs
     \<Rightarrow> (js_error + exec_result) \<times> fs" where
  "runner git_code failing cmd args dir tree =
     (if cmd = ''git'' then
        (Inr \<lparr>exitCode = Some git_code, stdout = ''0123456789abcdef'' @ [CHR 0x0A], stderr = []\<rparr>, tree)
      else
        (case dir of
           None \<Rightarrow> (Inr \<lparr>exitCode = Some 0, stdout = [], stderr = []\<rparr>, tree)
         | Some d \<Rightarrow>
             (if dir = failing then
                (Inr \<lparr>exitCode = Some 1, stdout = [], stderr = ''boom''\<rparr>, tree)
              else
                (Inr \<lparr>exitCode = Some 0, stdout = [], stderr = []\<rparr>,
                 tree(d @ ''/'' @ drop 3 d @ ''-1.0.0.tgz'' \<mapsto> Regular ''tarball'')))))"

definition runner_without_output ::
  "string \<Rightarrow> string list \<Rightarrow> string option \<Rightarrow> fs \<Rightarrow> (js_error + exec_result) \<times> fs" where
  "runner_without_output cmd args dir tree =
     (Inr \<lparr>exitCode = Some 0, stdout = [], stderr = []\<rparr>, tree)"

definition demo_env ::
  "(string \<Rightarrow> string list \<Rightarrow> string option \<Rightarrow> fs \<Rightarrow> (js_error + exec_result) \<times> fs) \<Rightarrow> env" where
  "demo_env run =
     \<lparr>env_x = run,
      env_glob = (\<lambda>pattern. [''/w/a'', ''/w/b'', ''/w/c'']),
      env_cwd = ''/w'',
      JSON_parse = demo_parse,
      JSON_stringify = demo_stringify,
      sha256_hex = (\<lambda>bytes. ''digest of '' @ bytes),
      getCredentials = Some ''token'',
      getUsername = Inr ''alice'',
      API_URL_BASE = ''https://pkg.rx2.dev'',
      env_fetch = (\<lambda>url bytes sha auth.
        Inr \<lparr>status = 201, statusText = ''Created'',
             parsed = Inr \<lparr>reply_inspect = ''Package created'', reply_sha256 = None\<rparr>\<rparr>)\<rparr>"

section \<open>Storage keys\<close>

lemma split_at_first:
  "c \<notin> set a \<Longrightarrow> c \<notin> set b \<Longrightarrow> a @ c # x = b @ c # y \<Longrightarrow> a = b \<and> x = y"
proof (induction a arbitrary: b)
  case Nil
  then show ?case by (cases b) auto
next
  case (Cons h t)
  then show ?case by (cases b) auto
qed

lemma slash_not_mixed:
  "CHR ''/'' \<notin> set ''abcdefghijklmnopqrstuvwxyzABCDEFGHIJKLMNOPQRSTUVWXYZ0123456789-''"
  by simp

lemma at_not_lower:
  "CHR ''@'' \<notin> set ''abcdefghijklmnopqrstuvwxyz0123456789-''"
  by simp

lemma GithubUsername_no_slash: "GithubUsername u \<Longrightarrow> CHR ''/'' \<notin> set u"
  unfolding GithubUsername_def MixedCaseAlphaNumericWithDashRegex_def list_all_iff
  using slash_not_mixed by blast

lemma info_field_head:
  assumes "info_field n"
  shows "\<exists>c t. n = c # t \<and> c \<noteq> CHR ''@''"
proof -
  from assms obtain c t where n: "n = c # t"
    by (cases n) (simp_all add: info_field_def)
  from assms have "\<forall>x\<in>set n. x \<in> set ''abcdefghijklmnopqrstuvwxyz0123456789-''"
    unfolding info_field_def LowercaseAlphaNumericWithDashRegex_def list_all_iff by blast
  with n have "c \<in> set ''abcdefghijklmnopqrstuvwxyz0123456789-''" by simp
  with at_not_lower have "c \<noteq> CHR ''@''" by blast
  with n show ?thesis by blast
qed

lemma PackageInfo_Some:
  "PackageInfo r = Some i \<Longrightarrow>
     info_field (packageName i) \<and> info_field (version i) \<and>
     (\<forall>t. org i = Some t \<longrightarrow> info_field t)"
  by (auto simp: PackageInfo_def split: option.splits if_splits)

lemma scoped_unscoped_keys_differ:
  assumes u1: "GithubUsername u1" and u2: "GithubUsername u2"
    and i1: "PackageInfo r1 = Some i1" and i2: "PackageInfo r2 = Some i2"
    and scoped: "org i1 \<noteq> None" and unscoped: "org i2 = None"
  shows "key_of u1 i1 \<noteq> key_of u2 i2"
proof
  assume eq: "key_of u1 i1 = key_of u2 i2"
  from scoped obtain t where t: "org i1 = Some t" by auto
  with PackageInfo_Some [OF i1] have "info_field t" by simp
  then have tne: "t \<noteq> []" by (simp add: info_field_def)
  from PackageInfo_Some [OF i2] info_field_head obtain c s where
    n2: "packageName i2 = c # s" "c \<noteq> CHR ''@''" by blast
  from eq t tne unscoped have
    "u1 @ CHR ''/'' # (''@'' @ t @ ''__'' @ packageName i1 @ ''@'' @ version i1)
     = u2 @ CHR ''/'' # (packageName i2 @ ''@'' @ version i2)"
    by (simp add: key_of_def storageKey_def scope_prefix_def)
  from split_at_first [OF GithubUsername_no_slash [OF u1] GithubUsername_no_slash [OF u2] this]
  have "''@'' @ t @ ''__'' @ packageName i1 @ ''@'' @ version i1
        = packageName i2 @ ''@'' @ version i2"
    by simp
  with n2 show False by simp
qed

lemmas validate_defs =
  validatePackageParams_def package_transform_def startsWith_def PackageInfo_def
  info_field_def LowercaseAlphaNumericWithDashRegex_def GithubUsername_def
  MixedCaseAlphaNumericWithDashRegex_def

text \<open>
  C5. The key is \<open>preview-pkg/\<close>, the identity, a slash, the key name, an at sign and
  the version, where the key name is the package name for an unscoped package and, for a
  scoped one, an at sign, the owner, two underscores and the package name. Under
  any identity and version the scoped coordinate (a, b) and the unscoped coordinate
  \<^verbatim>\<open>a__b\<close> have different keys, and whenever identities and coordinates satisfy the
  validators' character sets, a scoped coordinate and an unscoped one never share a key.
\<close>

theorem storageKey_format_and_disjointness:
  "storageKey \<lparr>key_username = u, key_org = None, key_packageName = n, key_version = v\<rparr>
     = ''preview-pkg/'' @ u @ ''/'' @ n @ ''@'' @ v
   \<and> (t \<noteq> [] \<longrightarrow>
        storageKey \<lparr>key_username = u, key_org = Some t, key_packageName = n, key_version = v\<rparr>
          = ''preview-pkg/'' @ u @ ''/'' @ (''@'' @ t @ ''__'' @ n) @ ''@'' @ v)
   \<and> storageKey \<lparr>key_username = u, key_org = Some ''a'', key_packageName = ''b'', key_version = v\<rparr>
       \<noteq> storageKey \<lparr>key_username = u, key_org = None, key_packageName = ''a__b'', key_version = v\<rparr>
   \<and> (GithubUsername u1 \<and> GithubUsername u2 \<and> PackageInfo r1 = Some i1 \<and> PackageInfo r2 = Some i2
        \<and> org i1 \<noteq> None \<and> org i2 = None
      \<longrightarrow> key_of u1 i1 \<noteq> key_of u2 i2)"
proof -
  have unscoped: "storageKey \<lparr>key_username = u, key_org = None, key_packageName = n, key_version = v\<rparr>
     = ''preview-pkg/'' @ u @ ''/'' @ n @ ''@'' @ v"
    by (simp add: storageKey_def scope_prefix_def)
  have scoped: "t \<noteq> [] \<longrightarrow>
        storageKey \<lparr>key_username = u, key_org = Some t, key_packageName = n, key_version = v\<rparr>
          = ''preview-pkg/'' @ u @ ''/'' @ (''@'' @ t @ ''__'' @ n) @ ''@'' @ v"
    by (simp add: storageKey_def scope_prefix_def)
  have example: "storageKey \<lparr>key_username = u, key_org = Some ''a'', key_packageName = ''b'', key_version = v\<rparr>
       \<noteq> storageKey \<lparr>key_username = u, key_org = None, key_packageName = ''a__b'', key_version = v\<rparr>"
    by (simp add: storageKey_def scope_prefix_def)
  from unscoped scoped example scoped_unscoped_keys_differ show ?thesis by blast
qed

theorem storageKey_format_and_disjointness_witness:
  "''a'' \<noteq> []
   \<and> GithubUsername ''Alice-1'' \<and> GithubUsername ''bob''
   \<and> PackageInfo \<lparr>raw_org = Some ''a'', raw_packageName = Some ''b'', raw_version = Some ''1''\<rparr>
       = Some \<lparr>org = Some ''a'', packageName = ''b'', version = ''1''\<rparr>
   \<and> PackageInfo \<lparr>raw_org = None, raw_packageName = Some ''a-b'', raw_version = Some ''1''\<rparr>
       = Some \<lparr>org = None, packageName = ''a-b'', version = ''1''\<rparr>
   \<and> storageKey \<lparr>key_username = ''bob'', key_org = Some ''a'', key_packageName = ''b'', key_version = ''1''\<rparr>
       = ''preview-pkg/bob/@a__b@1''
   \<and> storageKey \<lparr>key_username = ''bob'', key_org = None, key_packageName = ''a__b'', key_version = ''1''\<rparr>
       = ''preview-pkg/bob/a__b@1''
   \<and> key_of ''Alice-1'' \<lparr>org = Some ''a'', packageName = ''b'', version = ''1''\<rparr>
       \<noteq> key_of ''bob'' \<lparr>org = None, packageName = ''a-b'', version = ''1''\<rparr>"
  using storageKey_format_and_disjointness
    [of "''bob''" "''a__b''" "''1''" "''a''" "''Alice-1''" "''bob''"
        "\<lparr>raw_org = Some ''a'', raw_packageName = Some ''b'', raw_version = Some ''1''\<rparr>"
        "\<lparr>org = Some ''a'', packageName = ''b'', version = ''1''\<rparr>"
        "\<lparr>raw_org = None, raw_packageName = Some ''a-b'', raw_version = Some ''1''\<rparr>"
        "\<lparr>org = None, packageName = ''a-b'', version = ''1''\<rparr>"]
  by (simp add: validate_defs storageKey_def scope_prefix_def)

section \<open>The upload and fetch routes\<close>

lemma key_demo: "key_of ''alice'' demo_info = ''preview-pkg/alice/pkg@1''"
  by (simp add: key_of_def storageKey_def scope_prefix_def demo_info_def)

lemma validate_demo: "validatePackageParams ''alice'' ''pkg@1'' = Inr (''alice'', demo_info)"
  by (simp add: validate_defs demo_info_def)

text \<open>
  C2 (as amended). For every storage key at which an object with a recorded SHA-256
  checksum exists, the upload handler leaves the bucket as it was, whatever the new bytes
  and checksum are, and, once the publisher is authenticated as the owner, answers 409
  carrying the recorded checksum.
\<close>

theorem put_conflict_when_checksum_recorded:
  assumes "b (key_of u info) = Some ob" and "r2_sha256 ob = Some recorded"
  shows "bucket_after (post_handler sv b u info bytes sha a) = b
       \<and> (getAuthenticated sv a = Inr u \<longrightarrow>
            answer (post_handler sv b u info bytes sha a) =
              Respond 409 (Json_error
                (''Package '' @ scope_prefix (org info) ''/'' [] @ packageName info
                 @ ''@'' @ version info @ '' already exists'') (Some recorded)))"
  using assms
  by (simp add: post_handler_def head_def existing_sha256_def Let_def split: sum.splits)

theorem put_conflict_when_checksum_recorded_witness:
  "[''preview-pkg/alice/pkg@1'' \<mapsto> checked_object] (key_of ''alice'' demo_info) = Some checked_object
   \<and> r2_sha256 checked_object = Some ''aa''
   \<and> getAuthenticated (accepting_services ''alice'') ''token'' = Inr ''alice''
   \<and> bucket_after (post_handler (accepting_services ''alice'')
        [''preview-pkg/alice/pkg@1'' \<mapsto> checked_object] ''alice'' demo_info ''new'' ''bb'' ''token'')
      = [''preview-pkg/alice/pkg@1'' \<mapsto> checked_object]
   \<and> answer (post_handler (accepting_services ''alice'')
        [''preview-pkg/alice/pkg@1'' \<mapsto> checked_object] ''alice'' demo_info ''new'' ''bb'' ''token'')
      = Respond 409 (Json_error ''Package pkg@1 already exists'' (Some ''aa''))"
proof -
  have h1: "[''preview-pkg/alice/pkg@1'' \<mapsto> checked_object] (key_of ''alice'' demo_info)
            = Some checked_object"
    by (simp add: key_demo)
  have h2: "r2_sha256 checked_object = Some ''aa''"
    by (simp add: checked_object_def)
  have h3: "getAuthenticated (accepting_services ''alice'') ''token'' = Inr ''alice''"
    by (simp add: accepting_services_def)
  have msg: "''Package '' @ scope_prefix (org demo_info) ''/'' [] @ packageName demo_info
             @ ''@'' @ version demo_info @ '' already exists'' = ''Package pkg@1 already exists''"
    by (simp add: demo_info_def scope_prefix_def)
  from put_conflict_when_checksum_recorded
         [of "[''preview-pkg/alice/pkg@1'' \<mapsto> checked_object]" "''alice''" demo_info
             checked_object "''aa''" "accepting_services ''alice''" "''new''" "''bb''" "''token''"]
       h1 h2 h3 msg
  show ?thesis by simp
qed

text \<open>
  C2 as stated fails: an object that has no recorded SHA-256 checksum is replaced by the
  upload, and the answer is 201, not a conflict.
\<close>

theorem put_overwrites_unchecked_object:
  "[''preview-pkg/alice/pkg@1'' \<mapsto> unchecked_object] (key_of ''alice'' demo_info)
     = Some unchecked_object
   \<and> r2_body unchecked_object = ''old''
   \<and> answer (post_handler (accepting_services ''alice'')
        [''preview-pkg/alice/pkg@1'' \<mapsto> unchecked_object] ''alice'' demo_info ''new'' ''bb'' ''token'')
      = Respond 201 (Json_message ''Package created'')
   \<and> map_option r2_body (bucket_after (post_handler (accepting_services ''alice'')
        [''preview-pkg/alice/pkg@1'' \<mapsto> unchecked_object] ''alice'' demo_info ''new'' ''bb'' ''token'')
        (key_of ''alice'' demo_info)) = Some ''new''"
  by (simp add: key_demo post_handler_def accepting_services_def head_def existing_sha256_def
        unchecked_object_def put_def Let_def)

text \<open>
  C8 (as amended). For every fetch request whose identity and coordinate pass validation,
  the server answers 200 with the stored bytes and content type
  \<^verbatim>\<open>application/tar+gzip\<close> whenever an object is stored at the key, and 404 exactly when
  none is.
\<close>

theorem get_route_serves_stored_object:
  assumes "validatePackageParams username package = Inr (u, info)"
  shows "get_route b username package =
     (case b (key_of u info) of
        None \<Rightarrow> Respond 404 (Json_error ''Package not found'' None)
      | Some ob \<Rightarrow> Respond 200 (Archive ''application/tar+gzip'' (r2_body ob)))"
  using assms by (simp add: get_route_def head_def get_def Let_def split: option.splits)

theorem get_route_serves_stored_object_witness:
  "validatePackageParams ''alice'' ''pkg@1'' = Inr (''alice'', demo_info)
   \<and> get_route [''preview-pkg/alice/pkg@1'' \<mapsto> checked_object] ''alice'' ''pkg@1''
       = Respond 200 (Archive ''application/tar+gzip'' ''old'')
   \<and> get_route Map.empty ''alice'' ''pkg@1'' = Respond 404 (Json_error ''Package not found'' None)"
  using get_route_serves_stored_object
          [OF validate_demo, of "[''preview-pkg/alice/pkg@1'' \<mapsto> checked_object]"]
        get_route_serves_stored_object [OF validate_demo, of Map.empty]
        validate_demo
  by (simp add: key_demo checked_object_def)

text \<open>
  C8 as stated fails: an object whose checksum metadata is missing is served like any
  other, with status 200.
\<close>

theorem get_route_serves_unchecked_object:
  "r2_sha256 unchecked_object = None
   \<and> get_route [''preview-pkg/alice/pkg@1'' \<mapsto> unchecked_object] ''alice'' ''pkg@1''
     = Respond 200 (Archive ''application/tar+gzip'' ''old'')"
  by (simp add: get_route_def validate_demo key_demo head_def get_def unchecked_object_def Let_def)

text \<open>The form validator turns away an oversized tarball and a checksum field that is not
  64 characters long.\<close>

lemma validateForm_rejects:
  "(case tarball f of Some (File bytes) \<Rightarrow> length bytes > 10 * 1024 * 1024 | _ \<Rightarrow> False)
   \<or> (case sha256 f of Some (Text sha) \<Rightarrow> length sha \<noteq> 64 | _ \<Rightarrow> False)
   \<Longrightarrow> validateForm f = Inl (Respond 400 Invalid_format)"
  by (auto simp: validateForm_def split: option.splits form_value.splits)

text \<open>Such a request makes no call to GitHub or the bucket and leaves the bucket alone;
  its answer is the 400 unless the transform of the path segment threw first.\<close>

lemma post_route_rejected_form:
  assumes "validateForm (req_form req) = Inl (Respond 400 Invalid_format)"
  shows "calls (post_route sv b req) = [] \<and> bucket_after (post_route sv b req) = b \<and>
     (case package_transform (req_package req) of
        Inl e \<Rightarrow> answer (post_route sv b req) = Uncaught e
      | Inr raw \<Rightarrow> answer (post_route sv b req) = Respond 400 Invalid_format)"
  using assms
  by (auto simp: post_route_def validatePackageParams_def split: sum.splits option.splits)

text \<open>
  C10. An upload whose checksum field is too short should be answered 400. For the path
  segment \<^verbatim>\<open>@foo\<close> (a scope without a slash) the parameter transform throws before the
  form is looked at, and the exception leaves the route uncaught: the answer is not the
  400 of the validators.
\<close>

theorem post_route_scope_without_slash_uncaught:
  "validateForm \<lparr>tarball = Some (File bytes), sha256 = Some (Text ''abc'')\<rparr>
     = Inl (Respond 400 Invalid_format)
   \<and> answer (post_route sv b
       \<lparr>req_username = ''alice'', req_package = ''@foo'',
        req_form = \<lparr>tarball = Some (File bytes), sha256 = Some (Text ''abc'')\<rparr>,
        req_authorization = a\<rparr>)
     = Uncaught (TypeError ''Cannot read properties of undefined (reading split)'')"
  by (simp add: post_route_def validatePackageParams_def package_transform_def startsWith_def
        validateForm_def)

text \<open>The worker only ever stores objects with a recorded checksum: a bucket in which
  every object has one stays so under every upload.\<close>

lemma post_route_keeps_checksums:
  assumes "\<And>k ob. b k = Some ob \<Longrightarrow> r2_sha256 ob \<noteq> None"
    and "bucket_after (post_route sv b req) k = Some ob"
  shows "r2_sha256 ob \<noteq> None"
proof -
  have handler: "\<And>u info bytes sha a.
      bucket_after (post_handler sv b u info bytes sha a) k = Some ob \<Longrightarrow> r2_sha256 ob \<noteq> None"
    using assms(1)
    by (auto simp: post_handler_def put_def Let_def split: sum.splits option.splits if_splits)
  from assms(2) show ?thesis
    using assms(1) handler
    by (auto simp: post_route_def split: sum.splits prod.splits)
qed

section \<open>The dependency map\<close>

text \<open>Pass 1 appends the packages it keeps, in the order of the paths, and sets one URL
  for each of them, in that order.\<close>

lemma pass1_fold:
  "pass1 e w username ver paths (deps, infos) = (deps', infos') \<Longrightarrow>
     \<exists>new. infos' = infos @ new \<and> deps' = fold (set_url e username ver) new deps"
proof (induction paths arbitrary: deps infos)
  case Nil
  then show ?case by simp
next
  case (Cons p paths)
  show ?case
  proof (cases "readPackageJson e w (join p ''package.json'')")
    case None
    with Cons show ?thesis by simp
  next
    case (Some pJson)
    note read = this
    show ?thesis
    proof (cases "publishable pJson")
      case None
      with read Cons show ?thesis by simp
    next
      case (Some nv)
      obtain n v where nv: "nv = (n, v)" by (cases nv)
      let ?i = "\<lparr>pkg_path = p, pkg_name = n, pkg_version = v, pkg_pJson = pJson\<rparr>"
      from Cons.prems read Some nv
      have "pass1 e w username ver paths
              (set_url e username ver ?i deps, infos @ [?i]) = (deps', infos')"
        by (simp add: Let_def)
      from Cons.IH [OF this] obtain new where
        "infos' = (infos @ [?i]) @ new"
        "deps' = fold (set_url e username ver) new (set_url e username ver ?i deps)"
        by blast
      then have "infos' = infos @ (?i # new)
                 \<and> deps' = fold (set_url e username ver) (?i # new) deps"
        by simp
      then show ?thesis by blast
    qed
  qed
qed

lemma fold_set_url_other:
  "k \<notin> pkg_name ` set later \<Longrightarrow>
     map_of (fold (set_url e username ver) later deps) k = map_of deps k"
  by (induction later arbitrary: deps) (auto simp: set_url_def update_conv')

lemma fold_set_url_distinct:
  "distinct (map fst deps) \<Longrightarrow> distinct (map fst (fold (set_url e username ver) ps deps))"
  by (induction ps arbitrary: deps) (auto simp: set_url_def distinct_update)

text \<open>
  C7. When several discovered packages share a name, the dependency map built by pass 1
  has one entry for the name, and it is the URL derived from the package discovered last:
  for a package \<open>i\<close> after which no package of the same name was discovered, the map
  holds the URL built from \<open>i\<close>.
\<close>

theorem pass1_last_discovered_wins:
  assumes run: "pass1 e w username ver paths ([], []) = (deps, packageInfos)"
    and split: "packageInfos = earlier @ i # later"
    and last: "\<forall>j\<in>set later. pkg_name j \<noteq> pkg_name i"
  shows "map_of deps (pkg_name i) = Some (packageUrl e username (pkg_name i) ver)
         \<and> distinct (map fst deps)"
proof -
  from pass1_fold [OF run] have deps: "deps = fold (set_url e username ver) packageInfos []"
    by auto
  from last have notin: "pkg_name i \<notin> pkg_name ` set later" by auto
  have "map_of deps (pkg_name i)
        = map_of (set_url e username ver i (fold (set_url e username ver) earlier []))
            (pkg_name i)"
    unfolding deps split using fold_set_url_other [OF notin] by simp
  also have "\<dots> = Some (packageUrl e username (pkg_name i) ver)"
    by (simp add: set_url_def update_conv')
  finally have "map_of deps (pkg_name i) = Some (packageUrl e username (pkg_name i) ver)" .
  moreover have "distinct (map fst deps)"
    unfolding deps by (rule fold_set_url_distinct) simp
  ultimately show ?thesis by simp
qed

theorem pass1_last_discovered_wins_witness:
  "pass1 (demo_env (runner 0 None))
     \<lparr>files = [''/w/a/package.json'' \<mapsto> Regular ''manifest a'',
               ''/w/b/package.json'' \<mapsto> Regular ''manifest b'',
               ''/w/c/package.json'' \<mapsto> Regular ''manifest a''],
      denied = (\<lambda>path. None), trace = []\<rparr>
     ''alice'' ''v1'' [''/w/a'', ''/w/b'', ''/w/c''] ([], [])
   = ([(''a'', ''https://pkg.rx2.dev/alice/a@v1''), (''b'', ''https://pkg.rx2.dev/alice/b@v1'')],
      [\<lparr>pkg_path = ''/w/a'', pkg_name = ''a'', pkg_version = ''1.0.0'', pkg_pJson = demo_manifest ''a''\<rparr>,
       \<lparr>pkg_path = ''/w/b'', pkg_name = ''b'', pkg_version = ''1.0.0'', pkg_pJson = demo_manifest ''b''\<rparr>]
      @ \<lparr>pkg_path = ''/w/c'', pkg_name = ''a'', pkg_version = ''1.0.0'', pkg_pJson = demo_manifest ''a''\<rparr>
      # [])
   \<and> map_of [(''a'', ''https://pkg.rx2.dev/alice/a@v1''), (''b'', ''https://pkg.rx2.dev/alice/b@v1'')] ''a''
       = Some (packageUrl (demo_env (runner 0 None)) ''alice'' ''a'' ''v1'')"
proof -
  let ?w = "\<lparr>files = [''/w/a/package.json'' \<mapsto> Regular ''manifest a'',
               ''/w/b/package.json'' \<mapsto> Regular ''manifest b'',
               ''/w/c/package.json'' \<mapsto> Regular ''manifest a''],
      denied = (\<lambda>path. None), trace = []\<rparr>"
  let ?c = "\<lparr>pkg_path = ''/w/c'', pkg_name = ''a'', pkg_version = ''1.0.0'', pkg_pJson = demo_manifest ''a''\<rparr>"
  let ?earlier = "[\<lparr>pkg_path = ''/w/a'', pkg_name = ''a'', pkg_version = ''1.0.0'', pkg_pJson = demo_manifest ''a''\<rparr>,
       \<lparr>pkg_path = ''/w/b'', pkg_name = ''b'', pkg_version = ''1.0.0'', pkg_pJson = demo_manifest ''b''\<rparr>]"
  let ?deps = "[(''a'', ''https://pkg.rx2.dev/alice/a@v1''), (''b'', ''https://pkg.rx2.dev/alice/b@v1'')]"
  have run: "pass1 (demo_env (runner 0 None)) ?w ''alice'' ''v1'' [''/w/a'', ''/w/b'', ''/w/c''] ([], [])
             = (?deps, ?earlier @ ?c # [])"
    by code_simp
  have last: "\<forall>j\<in>set []. pkg_name j \<noteq> pkg_name ?c" by simp
  from pass1_last_discovered_wins [OF run refl last] run show ?thesis by simp
qed

section \<open>Rewriting and restoring a manifest\<close>

lemma hijack_step_own:
  "fst ` set (hijack_step (d, u) obj) =
     (if d \<in> fst ` set obj \<or> d \<in> set inherited_methods
      then insert d (fst ` set obj) else fst ` set obj)"
  by (auto simp: hijack_step_def js_in_def assign_def dom_update)

lemma hijack_step_lookup:
  "map_of (hijack_step (d, u) obj) =
     (if d \<in> fst ` set obj \<or> d \<in> set inherited_methods
      then (map_of obj)(d \<mapsto> u) else map_of obj)"
  by (auto simp: hijack_step_def js_in_def assign_def update_conv')

lemma fold_hijack_keeps:
  "k \<notin> fst ` set deps \<Longrightarrow> map_of (fold hijack_step deps obj) k = map_of obj k"
proof (induction deps arbitrary: obj)
  case Nil
  then show ?case by simp
next
  case (Cons a deps)
  obtain d u where a: "a = (d, u)" by (cases a)
  with Cons.prems have "d \<noteq> k" "k \<notin> fst ` set deps" by auto
  with Cons.IH [of "hijack_step (d, u) obj"] a show ?case
    by (simp add: hijack_step_lookup)
qed

lemma fold_hijack_replaces:
  "distinct (map fst deps) \<Longrightarrow> k \<in> fst ` set obj \<Longrightarrow> map_of deps k = Some url \<Longrightarrow>
     map_of (fold hijack_step deps obj) k = Some url"
proof (induction deps arbitrary: obj)
  case Nil
  then show ?case by simp
next
  case (Cons a deps)
  obtain d u where a: "a = (d, u)" by (cases a)
  show ?case
  proof (cases "d = k")
    case True
    with Cons.prems a have "u = url" "k \<notin> fst ` set deps" by auto
    with fold_hijack_keeps [of k deps "hijack_step (k, url) obj"] Cons.prems(2) a True
    show ?thesis by (simp add: hijack_step_lookup)
  next
    case False
    with Cons.prems a have "map_of deps k = Some url" "distinct (map fst deps)" by auto
    moreover from Cons.prems(2) have "k \<in> fst ` set (hijack_step (d, u) obj)"
      by (auto simp: hijack_step_own)
    ultimately show ?thesis using Cons.IH [of "hijack_step (d, u) obj"] a by simp
  qed
qed

lemma hijackDeps_rewritten:
  assumes "distinct (map fst deps)"
  shows "rewritten_per_spec deps cls (hijackDeps deps cls)"
proof (cases cls)
  case None
  then show ?thesis by (simp add: rewritten_per_spec_def hijackDeps_def)
next
  case (Some old)
  with assms show ?thesis
    by (simp add: rewritten_per_spec_def hijackDeps_def fold_hijack_replaces fold_hijack_keeps)
qed

text \<open>
  C6. For every manifest and every dependency map, the rewrite replaces the version string
  of each dependency whose name is a key of the map, in the runtime, the development and
  the optional class, each on its own, and leaves the peer class as it was.
\<close>

theorem hijacked_three_classes_not_peer:
  assumes "distinct (map fst deps)"
  shows "rewritten_per_spec deps (dependencies pJson) (dependencies (hijacked deps pJson))
       \<and> rewritten_per_spec deps (devDependencies pJson) (devDependencies (hijacked deps pJson))
       \<and> rewritten_per_spec deps (optionalDependencies pJson)
           (optionalDependencies (hijacked deps pJson))
       \<and> peerDependencies (hijacked deps pJson) = peerDependencies pJson"
  using assms by (simp add: hijacked_def hijackDeps_rewritten)

theorem hijacked_three_classes_not_peer_witness:
  "distinct (map fst [(''a'', ''https://pkg.rx2.dev/alice/a@v1'')])
   \<and> dependencies (hijacked [(''a'', ''https://pkg.rx2.dev/alice/a@v1'')] (demo_manifest ''b''))
       = Some [(''a'', ''https://pkg.rx2.dev/alice/a@v1'')]
   \<and> rewritten_per_spec [(''a'', ''https://pkg.rx2.dev/alice/a@v1'')]
        (dependencies (demo_manifest ''b''))
        (dependencies (hijacked [(''a'', ''https://pkg.rx2.dev/alice/a@v1'')] (demo_manifest ''b'')))
   \<and> peerDependencies (hijacked [(''a'', ''https://pkg.rx2.dev/alice/a@v1'')] (demo_manifest ''b''))
       = Some [(''a'', ''workspace:*'')]"
proof -
  have d: "distinct (map fst [(''a'', ''https://pkg.rx2.dev/alice/a@v1'')])" by simp
  have v: "dependencies (hijacked [(''a'', ''https://pkg.rx2.dev/alice/a@v1'')] (demo_manifest ''b''))
       = Some [(''a'', ''https://pkg.rx2.dev/alice/a@v1'')]"
    by (simp add: hijacked_def hijackDeps_def hijack_step_def js_in_def assign_def demo_manifest_def)
  have p: "peerDependencies (demo_manifest ''b'') = Some [(''a'', ''workspace:*'')]"
    by (simp add: demo_manifest_def)
  from hijacked_three_classes_not_peer [OF d, of "demo_manifest ''b''"] d v p
  show ?thesis by simp
qed


text \<open>A write can be refused: the rewrite of a manifest that was read, and the restoring
  write, fail on a path the operating system does not let the CLI change.\<close>

lemma writeFile_denied:
  "files w path \<noteq> Some Directory \<Longrightarrow> denied w path = Some code \<Longrightarrow>
     writeFile w path contents = (Inl (FsError code path), w)"
  by (auto simp: writeFile_def split: option.splits node.splits)


text \<open>Bytes below 80 are well-formed as they are.\<close>

lemma utf8_decode_ascii:
  "list_all (\<lambda>b. byte_in b 0x00 0x7F) bytes \<Longrightarrow> well_formed_utf8 bytes"
proof -
  have "list_all (\<lambda>b. byte_in b 0x00 0x7F) bytes \<Longrightarrow>
          utf8_decode_from 0 seen lo hi bytes = bytes" for seen lo hi
    by (induction bytes arbitrary: seen lo hi) auto
  then show "list_all (\<lambda>b. byte_in b 0x00 0x7F) bytes \<Longrightarrow> well_formed_utf8 bytes"
    by (simp add: well_formed_utf8_def utf8_decode_def)
qed





text \<open>The same in the passes of a run: pass 2 captures and rewrites, pass 4 restores, and
  the manifest is left with other bytes than it had.\<close>

lemma passes_replace_ill_formed_bytes:
  "fst (pass2 (demo_env (runner 0 None)) [(''a'', ''https://pkg.rx2.dev/alice/a@v1'')]
          [\<lparr>pkg_path = ''/w/b'', pkg_name = ''b'', pkg_version = ''1.0.0'',
            pkg_pJson = demo_manifest ''b''\<rparr>] [] latin1_world)
     = Inr [(''/w/b'', Restore ''/w/b/package.json''
                        (''manifest caf'' @ [CHR 0xEF, CHR 0xBF, CHR 0xBD]))]
   \<and> fst (pass4 [Restore ''/w/b/package.json'' (''manifest caf'' @ [CHR 0xEF, CHR 0xBF, CHR 0xBD])]
            (snd (pass2 (demo_env (runner 0 None)) [(''a'', ''https://pkg.rx2.dev/alice/a@v1'')]
               [\<lparr>pkg_path = ''/w/b'', pkg_name = ''b'', pkg_version = ''1.0.0'',
                 pkg_pJson = demo_manifest ''b''\<rparr>] [] latin1_world)))
     = Inr ()
   \<and> files (snd (pass4 [Restore ''/w/b/package.json''
                          (''manifest caf'' @ [CHR 0xEF, CHR 0xBF, CHR 0xBD])]
            (snd (pass2 (demo_env (runner 0 None)) [(''a'', ''https://pkg.rx2.dev/alice/a@v1'')]
               [\<lparr>pkg_path = ''/w/b'', pkg_name = ''b'', pkg_version = ''1.0.0'',
                 pkg_pJson = demo_manifest ''b''\<rparr>] [] latin1_world))))
        ''/w/b/package.json''
     = Some (Regular (''manifest caf'' @ [CHR 0xEF, CHR 0xBF, CHR 0xBD]))"
  by code_simp

section \<open>The version of a run\<close>

text \<open>
  C9. When the caller supplied no version and credentials are present, the run asks the
  source control for the current revision. If the command cannot be started the run ends
  with its exception, and if it exits nonzero the run ends at once: in both cases nothing
  but that one command has happened. Otherwise the version is the first 7 characters of
  the trimmed revision, and the run continues as a run that was given this version.
\<close>

theorem version_from_revision_or_abort:
  assumes no_version: "defined input_version = None"
    and credentials: "getCredentials e = Some token"
    and git: "env_x e ''git'' [''rev-parse'', ''HEAD''] None (files w) = (r, tree)"
    and after: "w' = w\<lparr>files := tree, trace := trace w @ [Exec ''git'' [''rev-parse'', ''HEAD''] None]\<rparr>"
  shows "case r of
           Inl err \<Rightarrow> publish e patterns packer input_version w = (Threw err, w')
         | Inr gitVersion \<Rightarrow>
             (if exitCode gitVersion \<noteq> Some 0
              then publish e patterns packer input_version w = (Version_detection_failed, w')
              else resolve_version e w input_version
                     = (Inr (Some (take 7 (trim (stdout gitVersion)))), w')
                   \<and> (take 7 (trim (stdout gitVersion)) \<noteq> [] \<longrightarrow>
                        publish e patterns packer input_version w
                          = publish e patterns packer
                              (Some (take 7 (trim (stdout gitVersion)))) w'))"
proof (cases r)
  case (Inl err)
  with assms show ?thesis
    by (simp add: publish_def resolve_version_def run_x_def captured_def Let_def)
next
  case (Inr gitVersion)
  show ?thesis
  proof (cases "exitCode gitVersion = Some 0")
    case False
    with Inr assms show ?thesis
      by (simp add: publish_def resolve_version_def run_x_def captured_def Let_def)
  next
    case True
    with Inr assms have rv: "resolve_version e w input_version
                     = (Inr (Some (take 7 (trim (stdout gitVersion)))), w')"
      by (simp add: resolve_version_def run_x_def captured_def)
    have "take 7 (trim (stdout gitVersion)) \<noteq> [] \<Longrightarrow>
            resolve_version e w' (Some (take 7 (trim (stdout gitVersion))))
              = (Inr (Some (take 7 (trim (stdout gitVersion)))), w')"
      by (simp add: resolve_version_def defined_def)
    with rv credentials have "take 7 (trim (stdout gitVersion)) \<noteq> [] \<longrightarrow>
                        publish e patterns packer input_version w
                          = publish e patterns packer
                              (Some (take 7 (trim (stdout gitVersion)))) w'"
      by (simp add: publish_def Let_def)
    with rv Inr True show ?thesis by simp
  qed
qed

lemma trim_revision: "take 7 (trim (''0123456789abcdef'' @ [CHR 0x0A])) = ''0123456''"
  by (simp add: trim_def js_space_def)

theorem version_from_revision_or_abort_witness:
  "defined None = None
   \<and> getCredentials (demo_env (runner 128 None)) = Some ''token''
   \<and> publish (demo_env (runner 128 None)) [''/w/*''] npm None demo_world
       = (Version_detection_failed,
          demo_world\<lparr>trace := [Exec ''git'' [''rev-parse'', ''HEAD''] None]\<rparr>)
   \<and> resolve_version (demo_env (runner 0 None)) demo_world None
       = (Inr (Some ''0123456''),
          demo_world\<lparr>trace := [Exec ''git'' [''rev-parse'', ''HEAD''] None]\<rparr>)"
proof -
  have n: "defined None = None" by (simp add: defined_def)
  have c1: "getCredentials (demo_env (runner 128 None)) = Some ''token''"
    and c0: "getCredentials (demo_env (runner 0 None)) = Some ''token''"
    by (simp_all add: demo_env_def)
  have g1: "env_x (demo_env (runner 128 None)) ''git'' [''rev-parse'', ''HEAD''] None (files demo_world)
        = (Inr \<lparr>exitCode = Some 128, stdout = ''0123456789abcdef'' @ [CHR 0x0A], stderr = []\<rparr>,
           files demo_world)"
    and g0: "env_x (demo_env (runner 0 None)) ''git'' [''rev-parse'', ''HEAD''] None (files demo_world)
        = (Inr \<lparr>exitCode = Some 0, stdout = ''0123456789abcdef'' @ [CHR 0x0A], stderr = []\<rparr>,
           files demo_world)"
    by (simp_all add: demo_env_def runner_def)
  have t: "trace demo_world = []" by (simp add: demo_world_def)
  from version_from_revision_or_abort [OF n c1 g1 refl, of "[''/w/*'']" npm]
       version_from_revision_or_abort [OF n c0 g0 refl, of "[''/w/*'']" npm]
       n c1 t trim_revision
  show ?thesis by simp
qed

section \<open>Packing\<close>

text \<open>A packer that exits nonzero makes \<^verbatim>\<open>pack\<close> throw. The message is built to carry
  the output of the tool, but the tool runs with inherited streams, nothing is captured,
  and the message names the directory and the tool only.\<close>

lemma pack_nonzero_exit:
  assumes "env_x e (manager_name (packageManager options))
             (if packageManager options = yarn
              then (if packageManager options = bun then [''pm'', ''pack''] else [''pack''])
                   @ [''--filename'', packageIdentifier options @ ''.tgz'']
              else (if packageManager options = bun then [''pm'', ''pack''] else [''pack'']))
             (Some (cwd options)) (files w) = (Inr res, tree)"
    and "exitCode res \<noteq> Some 0"
  shows "fst (pack e w options) =
     Inl (Error (''Failed to pack '' @ cwd options @ '' with ''
                 @ manager_name (packageManager options)))"
  using assms by (simp add: pack_def run_x_def captured_def trim_def Let_def)

text \<open>A packer that exits with 0 and leaves no file at the expected path makes \<^verbatim>\<open>pack\<close>
  throw the error of \<^verbatim>\<open>stat\<close>: the check for the missing file comes after it.\<close>

lemma pack_missing_file:
  assumes "env_x e (manager_name (packageManager options))
             (if packageManager options = yarn
              then (if packageManager options = bun then [''pm'', ''pack''] else [''pack''])
                   @ [''--filename'', packageIdentifier options @ ''.tgz'']
              else (if packageManager options = bun then [''pm'', ''pack''] else [''pack'']))
             (Some (cwd options)) (files w) = (Inr res, tree)"
    and "exitCode res = Some 0"
    and "tree (join (cwd options) (packageIdentifier options @ ''.tgz'')) = None"
  shows "fst (pack e w options) =
     Inl (FsError ''ENOENT'' (join (cwd options) (packageIdentifier options @ ''.tgz'')))"
  using assms by (simp add: pack_def run_x_def captured_def Let_def stat_def readFile_def)

text \<open>
  C4. With a packer that exits with status 0 and writes no file, \<^verbatim>\<open>pack\<close> does not
  fail with its own error for the missing output: it fails with the \<open>ENOENT\<close> error of
  \<^verbatim>\<open>stat\<close>.
\<close>

theorem pack_missing_output_throws_stat_error:
  "fst (pack (demo_env runner_without_output) demo_world
         \<lparr>packageManager = npm, cwd = ''/w/a'', packageIdentifier = ''a-1.0.0'', keepFile = None\<rparr>)
     = Inl (FsError ''ENOENT'' ''/w/a/a-1.0.0.tgz'')
   \<and> fst (pack (demo_env runner_without_output) demo_world
         \<lparr>packageManager = npm, cwd = ''/w/a'', packageIdentifier = ''a-1.0.0'', keepFile = None\<rparr>)
     \<noteq> Inl (Error ''Pack command returned success but no output file was found, this is likely a bug'')"
  by code_simp

section \<open>A failing pack in a batch\<close>

text \<open>The loop of pass 3 has no handler: the first \<^verbatim>\<open>pack\<close> that throws ends the pass
  with its error, and the packages after it are not packed.\<close>

lemma pass3_stops_at_first_failure:
  assumes "pack e w \<lparr>packageManager = packer, cwd = pkg_path i,
                      packageIdentifier = identifier_of (pkg_name i) (pkg_version i),
                      keepFile = None\<rparr> = (Inl err, w')"
  shows "pass3 e packer (i # rest) packedPackages w = (Inl err, w')"
  using assms by simp

text \<open>
  C1. Three packages are published and the packer exits nonzero for the second. The error
  of \<^verbatim>\<open>pack\<close> leaves the run: no manifest is restored (all three keep their rewritten
  text), nothing is uploaded, and the run ends with the exception instead of results.
\<close>

theorem publish_pack_failure_leaves_manifests_rewritten:
  "fst (publish (demo_env (runner 0 (Some ''/w/b''))) [''/w/*''] npm (Some ''v1'') demo_world)
     = Threw (Error ''Failed to pack /w/b with npm'')
   \<and> trace (snd (publish (demo_env (runner 0 (Some ''/w/b''))) [''/w/*''] npm (Some ''v1'') demo_world))
     = [Write ''/w/a/package.json'', Write ''/w/b/package.json'', Write ''/w/c/package.json'',
        Exec ''npm'' [''pack''] (Some ''/w/a''), Unlink ''/w/a/a-1.0.0.tgz'',
        Exec ''npm'' [''pack''] (Some ''/w/b'')]
   \<and> map (files (snd (publish (demo_env (runner 0 (Some ''/w/b''))) [''/w/*''] npm (Some ''v1'')
             demo_world)))
       [''/w/a/package.json'', ''/w/b/package.json'', ''/w/c/package.json'']
     = [Some (Regular ''rewritten manifest a''), Some (Regular ''rewritten manifest b''),
        Some (Regular ''rewritten manifest c'')]
   \<and> map (files demo_world) [''/w/a/package.json'', ''/w/b/package.json'', ''/w/c/package.json'']
     = [Some (Regular ''manifest a''), Some (Regular ''manifest b''), Some (Regular ''manifest c'')]"
  by code_simp

text \<open>With a packer that succeeds everywhere, the same run restores the three manifests
  before the first upload and uploads all three.\<close>

lemma publish_healthy_run:
  "fst (publish (demo_env (runner 0 None)) [''/w/*''] npm (Some ''v1'') demo_world)
     = Finished
        [\<lparr>up_name = ''a'', up_packageUrl = Some ''https://pkg.rx2.dev/alice/a@v1'',
          up_status = Success, up_errorMessage = None\<rparr>,
         \<lparr>up_name = ''b'', up_packageUrl = Some ''https://pkg.rx2.dev/alice/b@v1'',
          up_status = Success, up_errorMessage = None\<rparr>,
         \<lparr>up_name = ''c'', up_packageUrl = Some ''https://pkg.rx2.dev/alice/c@v1'',
          up_status = Success, up_errorMessage = None\<rparr>]
   \<and> trace (snd (publish (demo_env (runner 0 None)) [''/w/*''] npm (Some ''v1'') demo_world))
     = [Write ''/w/a/package.json'', Write ''/w/b/package.json'', Write ''/w/c/package.json'',
        Exec ''npm'' [''pack''] (Some ''/w/a''), Unlink ''/w/a/a-1.0.0.tgz'',
        Exec ''npm'' [''pack''] (Some ''/w/b''), Unlink ''/w/b/b-1.0.0.tgz'',
        Exec ''npm'' [''pack''] (Some ''/w/c''), Unlink ''/w/c/c-1.0.0.tgz'',
        Write ''/w/a/package.json'', Write ''/w/b/package.json'', Write ''/w/c/package.json'',
        Fetch ''https://pkg.rx2.dev/alice/a@v1'', Fetch ''https://pkg.rx2.dev/alice/b@v1'',
        Fetch ''https://pkg.rx2.dev/alice/c@v1'']
   \<and> map (files (snd (publish (demo_env (runner 0 None)) [''/w/*''] npm (Some ''v1'') demo_world)))
       [''/w/a/package.json'', ''/w/b/package.json'', ''/w/c/package.json'']
     = [Some (Regular ''manifest a''), Some (Regular ''manifest b''), Some (Regular ''manifest c'')]"
  by code_simp

end
